theory Spec2Isabelle
  imports Main
begin

section \<open>Python values\<close>

text \<open>
  A Python \<open>str\<close> is a sequence of Unicode code points, so it is modelled as a list of
  naturals. The script's Chinese literals are written as their code points (hexadecimal),
  its ASCII literals through \<open>ascii\<close>.
\<close>

type_synonym ustring = "nat list"

definition ascii :: "string \<Rightarrow> ustring" where
  "ascii s = map of_char s"

text \<open>
  \<open>str.isspace\<close> of CPython on one code point: the characters of bidirectional type
  WS, B or S, or of category Zs.
\<close>

definition py_isspace :: "nat \<Rightarrow> bool" where
  "py_isspace c \<longleftrightarrow>
     (0x09 \<le> c \<and> c \<le> 0x0D) \<or> (0x1C \<le> c \<and> c \<le> 0x20) \<or> c = 0x85 \<or> c = 0xA0 \<or>
     c = 0x1680 \<or> (0x2000 \<le> c \<and> c \<le> 0x200A) \<or> c = 0x2028 \<or> c = 0x2029 \<or>
     c = 0x202F \<or> c = 0x205F \<or> c = 0x3000"

text \<open>\<open>str.strip()\<close> without argument: leading and trailing whitespace removed.\<close>

definition strip :: "ustring \<Rightarrow> ustring" where
  "strip s = rev (dropWhile py_isspace (rev (dropWhile py_isspace s)))"

text \<open>
  The exceptions of the run. All are subclasses of \<open>Exception\<close>, which is what the
  script's handlers catch. \<open>OtherException n\<close> is an exception raised by a collaborator
  (the LM Studio client, the spreadsheet reader or writer), \<open>n\<close> naming it.
\<close>

datatype py_exception = AttributeError | KeyError | OtherException nat

text \<open>
  A cell of the input table as \<open>df.iterrows()\<close> hands it over: a text, a missing value
  (\<open>None\<close>, \<open>NaN\<close> or \<open>NaT\<close>, for which \<open>pd.isna\<close> is true), or a numeric cell, which is
  neither missing nor a \<open>str\<close>.
\<close>

datatype cell = CStr ustring | CNA | CInt int

text \<open>
  A row of the input table. A column the table does not have is \<open>None\<close>;
  \<open>row.get(key, '')\<close> then gives the default.
\<close>

record row =
  col_gongdan_neirong :: "cell option"
  col_laidian_haoma :: "cell option"

definition row_get :: "cell option \<Rightarrow> cell \<Rightarrow> cell" where
  "row_get v dflt = (case v of None \<Rightarrow> dflt | Some c \<Rightarrow> c)"

section \<open>The schema and the dictionaries of the script\<close>

text \<open>\<open>ComplaintInfoSchema\<close>: four optional strings.\<close>

record ComplaintInfoSchema =
  line :: "ustring option"
  location :: "ustring option"
  noise_type :: "ustring option"
  vibration_type :: "ustring option"

text \<open>
  The dictionary \<open>extract_info_from_content\<close> returns. Its four keys are Chinese words;
  the fields carry their pinyin: \<open>xianlu\<close> (line), \<open>xiaoqu_weizhi\<close> (housing estate or
  location), \<open>zaoyin_leixing\<close> (noise type), \<open>zhendong_leixing\<close> (vibration type).
\<close>

record extracted_info =
  xianlu :: "ustring option"
  xiaoqu_weizhi :: "ustring option"
  zaoyin_leixing :: "ustring option"
  zhendong_leixing :: "ustring option"

text \<open>
  The dictionary \<open>result_row\<close> of the batch loop: the two carried cells, keyed
  \<open>gongdan_neirong\<close> (work-order content) and \<open>laidian_haoma\<close> (caller number), and the
  four extracted values.
\<close>

record result_row =
  gongdan_neirong :: cell
  laidian_haoma :: cell
  rr_xianlu :: "ustring option"
  rr_xiaoqu_weizhi :: "ustring option"
  rr_zaoyin_leixing :: "ustring option"
  rr_zhendong_leixing :: "ustring option"

text \<open>
  \<open>pd.DataFrame(results)\<close> for a list of dictionaries: the columns are the keys of the
  dictionaries, so a frame built from the empty list has no column at all.
\<close>

datatype column =
  Gongdan_neirong | Laidian_haoma | Xianlu | Xiaoqu_weizhi | Zaoyin_leixing | Zhendong_leixing

record dataframe =
  df_columns :: "column list"
  df_rows :: "result_row list"

definition DataFrame :: "result_row list \<Rightarrow> dataframe" where
  "DataFrame results =
     \<lparr>df_columns =
        (if results = [] then []
         else [Gongdan_neirong, Laidian_haoma, Xianlu, Xiaoqu_weizhi, Zaoyin_leixing,
               Zhendong_leixing]),
      df_rows = results\<rparr>"

text \<open>
  \<open>df[key]\<close>: the series of a column, \<open>KeyError\<close> when the frame has no such column.
  \<open>sel\<close> reads the value stored under \<open>key\<close> in a row.
\<close>

definition getitem ::
  "dataframe \<Rightarrow> column \<Rightarrow> (result_row \<Rightarrow> 'a) \<Rightarrow> py_exception + 'a list" where
  "getitem df key sel =
     (if key \<in> set (df_columns df) then Inr (map sel (df_rows df)) else Inl KeyError)"

text \<open>\<open>series.notna().sum()\<close>: \<open>None\<close> is missing, every string is not.\<close>

definition notna_sum :: "ustring option list \<Rightarrow> nat" where
  "notna_sum col = length (filter (\<lambda>v. v \<noteq> None) col)"

text \<open>
  \<open>series.value_counts()\<close>: missing values dropped, one entry per distinct value with its
  number of occurrences, in descending order of the counts. pandas documents no more
  than the descending order; this model keeps values with equal counts in the order of
  their first occurrence.
\<close>

definition value_counts :: "ustring option list \<Rightarrow> (ustring \<times> nat) list" where
  "value_counts col =
     (let vals = map the (filter (\<lambda>v. v \<noteq> None) col);
          keys = rev (remdups (rev vals));
          counts = map (\<lambda>k. (k, count_list vals k)) keys
      in sort_key (\<lambda>(k, n). - int n) counts)"

section \<open>The world outside the script\<close>

text \<open>
  What the script prints, one constructor per \<open>print\<close> statement of the source (the
  texts are Chinese; the constructor keeps the values formatted into them).
\<close>

datatype message =
    MsgConnecting ustring
  | MsgConnected
  | MsgConnectFailed py_exception
  | MsgModelCallFailed py_exception
  | MsgReading ustring
  | MsgRecordCount nat
  | MsgProcessed nat
  | MsgSaving ustring
  | MsgDone
  | MsgSavedTo ustring
  | MsgStatsHeader
  | MsgTotal nat
  | MsgXianluCount nat
  | MsgXiaoquWeizhiCount nat
  | MsgZaoyinLeixingCount nat
  | MsgZhendongLeixingCount nat
  | MsgXianluHeader
  | MsgZaoyinLeixingHeader
  | MsgEntry ustring nat
  | MsgMainError py_exception

text \<open>
  The effects of a run, in the order they happen: a printed message, the call
  \<open>lms.llm()\<close>, a call \<open>model.respond(prompt, ...)\<close>, \<open>time.sleep\<close>, the call of
  \<open>pd.read_excel\<close>, and a table written by \<open>to_excel\<close>. The progress bar of \<open>tqdm\<close>
  is not recorded.
\<close>

datatype event =
    Print message
  | LmsLlm
  | Respond ustring
  | Sleep nat
  | ReadExcel ustring
  | ToExcel ustring dataframe

text \<open>
  The world: the state of the language-model runtime, which only the runtime reads and
  changes, and the trace of effects so far.
\<close>

record 'm world =
  runtime :: 'm
  trace :: "event list"

definition emit :: "event \<Rightarrow> 'm world \<Rightarrow> 'm world" where
  "emit e w = w\<lparr>trace := trace w @ [e]\<rparr>"

text \<open>
  What \<open>response.parsed\<close> holds: a dictionary, an object with the four attributes of the
  schema, or any other value (a raw text, \<open>None\<close>), on which reading an attribute raises.
\<close>

datatype parsed =
    ParsedDict "ustring \<rightharpoonup> ustring option"
  | ParsedObject ComplaintInfoSchema
  | ParsedOther

datatype respond_result = Raises py_exception | Returns parsed

datatype llm_handle = LLM

text \<open>
  The collaborators, as parameters: \<open>lms.llm()\<close> and \<open>model.respond\<close> of the runtime
  (each may raise, and may change the runtime's state), \<open>pd.read_excel\<close> on a path and
  \<open>to_excel\<close> on a path and a frame (\<open>Some e\<close>: it raises \<open>e\<close>).
\<close>

record 'm env =
  lms_llm :: "'m \<Rightarrow> (py_exception + llm_handle) \<times> 'm"
  respond :: "'m \<Rightarrow> ustring \<Rightarrow> respond_result \<times> 'm"
  read_excel :: "ustring \<Rightarrow> py_exception + row list"
  to_excel :: "ustring \<Rightarrow> dataframe \<Rightarrow> py_exception option"

section \<open>MetroComplaintProcessor\<close>

record processor =
  model_name :: ustring
  model :: "llm_handle option"

definition initialize_model ::
  "'m env \<Rightarrow> processor \<Rightarrow> 'm world \<Rightarrow> (py_exception + processor) \<times> 'm world" where
  "initialize_model env self w =
     (let w1 = emit (Print (MsgConnecting (model_name self))) w
      in case lms_llm env (runtime w1) of
           (Inl e, m) \<Rightarrow>
             (Inl e, emit (Print (MsgConnectFailed e)) (emit LmsLlm (w1\<lparr>runtime := m\<rparr>)))
         | (Inr h, m) \<Rightarrow>
             (Inr (self\<lparr>model := Some h\<rparr>),
              emit (Print MsgConnected) (emit LmsLlm (w1\<lparr>runtime := m\<rparr>))))"

text \<open>The constructor \<open>__init__\<close>.\<close>

definition init ::
  "'m env \<Rightarrow> ustring \<Rightarrow> 'm world \<Rightarrow> (py_exception + processor) \<times> 'm world" where
  "init env name w = initialize_model env \<lparr>model_name = name, model = None\<rparr> w"

subsection \<open>extract_info_from_content\<close>

definition all_none :: extracted_info where
  "all_none =
     \<lparr>xianlu = None, xiaoqu_weizhi = None, zaoyin_leixing = None, zhendong_leixing = None\<rparr>"

text \<open>The prompt: the f-string of the source, the content between its two fixed parts.\<close>

definition prompt_head :: ustring where
  "prompt_head =
    [0x4F60, 0x662F, 0x4E00, 0x4E2A, 0x6570, 0x636E, 0x63D0, 0x53D6, 0x4E13, 0x5BB6,
     0x3002, 0x8BF7, 0x5206, 0x6790, 0x5317, 0x4EAC, 0x5730, 0x94C1, 0x6295, 0x8BC9,
     0x5DE5, 0x5355, 0x5185, 0x5BB9, 0xFF0C, 0x63D0, 0x53D6, 0x5173, 0x952E, 0x4FE1,
     0x606F, 0x3002, 0xA, 0xA, 0x5DE5, 0x5355, 0x5185, 0x5BB9, 0xFF1A]"

definition prompt_tail :: ustring where
  "prompt_tail =
    [0xA, 0xA, 0x63D0, 0x53D6, 0x4FE1, 0x606F, 0xFF1A, 0xA, 0x31, 0x2E,
     0x20, 0x6C, 0x69, 0x6E, 0x65, 0x3A, 0x20, 0x5730, 0x94C1, 0x7EBF,
     0x8DEF, 0xFF08, 0x5982, 0x31, 0x53F7, 0x7EBF, 0x3001, 0x32, 0x53F7, 0x7EBF,
     0x3001, 0x31, 0x33, 0x53F7, 0x7EBF, 0x7B49, 0xFF09, 0xA, 0x32, 0x2E,
     0x20, 0x6C, 0x6F, 0x63, 0x61, 0x74, 0x69, 0x6F, 0x6E, 0x3A,
     0x20, 0x5C0F, 0x533A, 0x540D, 0x79F0, 0x3001, 0x5730, 0x70B9, 0x6216, 0x7AD9,
     0x70B9, 0xA, 0x33, 0x2E, 0x20, 0x6E, 0x6F, 0x69, 0x73, 0x65,
     0x5F, 0x74, 0x79, 0x70, 0x65, 0x3A, 0x20, 0x566A, 0x97F3, 0x95EE,
     0x9898, 0x7C7B, 0x578B, 0xFF08, 0x5982, 0x5217, 0x8F66, 0x566A, 0x97F3, 0x3001,
     0x65BD, 0x5DE5, 0x566A, 0x97F3, 0x3001, 0x673A, 0x68B0, 0x566A, 0x97F3, 0x7B49,
     0xFF09, 0xA, 0x34, 0x2E, 0x20, 0x76, 0x69, 0x62, 0x72, 0x61,
     0x74, 0x69, 0x6F, 0x6E, 0x5F, 0x74, 0x79, 0x70, 0x65, 0x3A,
     0x20, 0x632F, 0x52A8, 0x95EE, 0x9898, 0x7C7B, 0x578B, 0xFF08, 0x5982, 0x5217,
     0x8F66, 0x632F, 0x52A8, 0x3001, 0x65BD, 0x5DE5, 0x632F, 0x52A8, 0x7B49, 0xFF09,
     0xA, 0xA, 0x6CA1, 0x6709, 0x660E, 0x786E, 0x63D0, 0x53CA, 0x7684, 0x4FE1,
     0x606F, 0x8FD4, 0x56DE, 0x6E, 0x75, 0x6C, 0x6C, 0x3002]"

definition build_prompt :: "ustring \<Rightarrow> ustring" where
  "build_prompt content = prompt_head @ content @ prompt_tail"

text \<open>\<open>convert_null\<close>: the string \<open>null\<close> becomes \<open>None\<close>, any other value is returned.\<close>

definition convert_null :: "ustring option \<Rightarrow> ustring option" where
  "convert_null v = (if v = Some (ascii ''null'') then None else v)"

text \<open>\<open>result.get(key)\<close> on a dictionary: \<open>None\<close> for a key it does not have.\<close>

definition dict_get :: "(ustring \<rightharpoonup> ustring option) \<Rightarrow> ustring \<Rightarrow> ustring option" where
  "dict_get d k = (case d k of None \<Rightarrow> None | Some v \<Rightarrow> v)"

text \<open>
  The body of the \<open>try\<close> block: the call of the model and the reading of its answer.
  \<open>Inl e\<close> is the exception \<open>e\<close> raised inside the block: by \<open>respond\<close>, by
  \<open>self.model.respond\<close> when \<open>self.model\<close> is \<open>None\<close>, or by reading an attribute the
  parsed value does not have.
\<close>

definition try_block ::
  "'m env \<Rightarrow> processor \<Rightarrow> ustring \<Rightarrow> 'm world \<Rightarrow> (py_exception + extracted_info) \<times> 'm world"
  where
  "try_block env self prompt w =
     (case model self of
        None \<Rightarrow> (Inl AttributeError, w)
      | Some h \<Rightarrow>
          (case respond env (runtime w) prompt of
             (Raises e, m) \<Rightarrow> (Inl e, emit (Respond prompt) (w\<lparr>runtime := m\<rparr>))
           | (Returns (ParsedDict d), m) \<Rightarrow>
               (Inr \<lparr>xianlu = convert_null (dict_get d (ascii ''line'')),
                     xiaoqu_weizhi = convert_null (dict_get d (ascii ''location'')),
                     zaoyin_leixing = convert_null (dict_get d (ascii ''noise_type'')),
                     zhendong_leixing = convert_null (dict_get d (ascii ''vibration_type''))\<rparr>,
                emit (Respond prompt) (w\<lparr>runtime := m\<rparr>))
           | (Returns (ParsedObject obj), m) \<Rightarrow>
               (Inr \<lparr>xianlu = convert_null (line obj),
                     xiaoqu_weizhi = convert_null (location obj),
                     zaoyin_leixing = convert_null (noise_type obj),
                     zhendong_leixing = convert_null (vibration_type obj)\<rparr>,
                emit (Respond prompt) (w\<lparr>runtime := m\<rparr>))
           | (Returns ParsedOther, m) \<Rightarrow>
               (Inl AttributeError, emit (Respond prompt) (w\<lparr>runtime := m\<rparr>))))"

text \<open>
  The guard comes first and stands outside the \<open>try\<close>: \<open>pd.isna(content)\<close>, then
  \<open>content.strip()\<close>, which raises \<open>AttributeError\<close> on a value that is not a string.
  The handler catches every exception of the block, prints it and returns the
  dictionary of four \<open>None\<close>.
\<close>

definition extract_info_from_content ::
  "'m env \<Rightarrow> processor \<Rightarrow> cell \<Rightarrow> 'm world \<Rightarrow> (py_exception + extracted_info) \<times> 'm world"
  where
  "extract_info_from_content env self content w =
     (case content of
        CNA \<Rightarrow> (Inr all_none, w)
      | CInt n \<Rightarrow> (Inl AttributeError, w)
      | CStr s \<Rightarrow>
          if strip s = [] then (Inr all_none, w)
          else
            (case try_block env self (build_prompt s) w of
               (Inr info, w1) \<Rightarrow> (Inr info, w1)
             | (Inl e, w1) \<Rightarrow> (Inr all_none, emit (Print (MsgModelCallFailed e)) w1)))"

subsection \<open>process_excel_file\<close>

text \<open>
  The body of the loop for the row at index \<open>idx\<close> (the index of \<open>read_excel\<close> counts the
  rows from 0), \<open>results\<close> being the list built so far.
\<close>

definition process_row ::
  "'m env \<Rightarrow> processor \<Rightarrow> nat \<Rightarrow> row \<Rightarrow> result_row list \<Rightarrow> 'm world \<Rightarrow>
     (py_exception + result_row list) \<times> 'm world" where
  "process_row env self idx r results w =
     (let content = row_get (col_gongdan_neirong r) (CStr []);
          phone = row_get (col_laidian_haoma r) (CStr [])
      in case extract_info_from_content env self content w of
           (Inl e, w1) \<Rightarrow> (Inl e, w1)
         | (Inr info, w1) \<Rightarrow>
             (Inr (results @
                [\<lparr>gongdan_neirong = content, laidian_haoma = phone,
                  rr_xianlu = xianlu info, rr_xiaoqu_weizhi = xiaoqu_weizhi info,
                  rr_zaoyin_leixing = zaoyin_leixing info,
                  rr_zhendong_leixing = zhendong_leixing info\<rparr>]),
              if (idx + 1) mod 10 = 0
              then emit (Print (MsgProcessed (idx + 1))) (emit (Sleep 1) w1)
              else w1))"

fun process_rows ::
  "'m env \<Rightarrow> processor \<Rightarrow> nat \<Rightarrow> row list \<Rightarrow> result_row list \<Rightarrow> 'm world \<Rightarrow>
     (py_exception + result_row list) \<times> 'm world" where
  "process_rows env self idx [] results w = (Inr results, w)"
| "process_rows env self idx (r # rest) results w =
     (case process_row env self idx r results w of
        (Inl e, w1) \<Rightarrow> (Inl e, w1)
      | (Inr results1, w1) \<Rightarrow> process_rows env self (idx + 1) rest results1 w1)"

subsection \<open>The statistics\<close>

text \<open>One line of a count: \<open>df[key].notna().sum()\<close>, printed.\<close>

definition print_count ::
  "dataframe \<Rightarrow> column \<Rightarrow> (result_row \<Rightarrow> ustring option) \<Rightarrow> (nat \<Rightarrow> message) \<Rightarrow>
     'm world \<Rightarrow> (py_exception + unit) \<times> 'm world" where
  "print_count df key sel msg w =
     (case getitem df key sel of
        Inl e \<Rightarrow> (Inl e, w)
      | Inr col \<Rightarrow> (Inr (), emit (Print (msg (notna_sum col))) w))"

definition emit_all :: "event list \<Rightarrow> 'm world \<Rightarrow> 'm world" where
  "emit_all es w = w\<lparr>trace := trace w @ es\<rparr>"

text \<open>
  A distribution: when the column has a value, the header and then one line for each of
  the first ten entries of \<open>value_counts()\<close>.
\<close>

definition print_distribution ::
  "dataframe \<Rightarrow> column \<Rightarrow> (result_row \<Rightarrow> ustring option) \<Rightarrow> message \<Rightarrow>
     'm world \<Rightarrow> (py_exception + unit) \<times> 'm world" where
  "print_distribution df key sel header w =
     (case getitem df key sel of
        Inl e \<Rightarrow> (Inl e, w)
      | Inr col \<Rightarrow>
          if notna_sum col > 0 then
            (case getitem df key sel of
               Inl e \<Rightarrow> (Inl e, emit (Print header) w)
             | Inr col1 \<Rightarrow>
                 (Inr (),
                  emit_all (map (\<lambda>(v, n). Print (MsgEntry v n)) (take 10 (value_counts col1)))
                    (emit (Print header) w)))
          else (Inr (), w))"

text \<open>Sequencing: the next statement runs unless the one before raised.\<close>

definition and_then ::
  "(py_exception + unit) \<times> 'm world \<Rightarrow> ('m world \<Rightarrow> (py_exception + unit) \<times> 'm world) \<Rightarrow>
     (py_exception + unit) \<times> 'm world" where
  "and_then r f = (case r of (Inl e, w) \<Rightarrow> (Inl e, w) | (Inr u, w) \<Rightarrow> f w)"

definition print_statistics ::
  "dataframe \<Rightarrow> 'm world \<Rightarrow> (py_exception + unit) \<times> 'm world" where
  "print_statistics df w =
     and_then (and_then (and_then (and_then (and_then
       (print_count df Xianlu rr_xianlu MsgXianluCount
          (emit (Print (MsgTotal (length (df_rows df)))) (emit (Print MsgStatsHeader) w)))
       (print_count df Xiaoqu_weizhi rr_xiaoqu_weizhi MsgXiaoquWeizhiCount))
       (print_count df Zaoyin_leixing rr_zaoyin_leixing MsgZaoyinLeixingCount))
       (print_count df Zhendong_leixing rr_zhendong_leixing MsgZhendongLeixingCount))
       (print_distribution df Xianlu rr_xianlu MsgXianluHeader))
       (print_distribution df Zaoyin_leixing rr_zaoyin_leixing MsgZaoyinLeixingHeader)"

text \<open>\<open>process_excel_file\<close>: read, loop, build the frame, write, print the statistics.\<close>

definition process_excel_file ::
  "'m env \<Rightarrow> processor \<Rightarrow> ustring \<Rightarrow> ustring \<Rightarrow> 'm world \<Rightarrow>
     (py_exception + unit) \<times> 'm world" where
  "process_excel_file env self input_file output_file w =
     (let w1 = emit (ReadExcel input_file) (emit (Print (MsgReading input_file)) w)
      in case read_excel env input_file of
           Inl e \<Rightarrow> (Inl e, w1)
         | Inr df \<Rightarrow>
             (case process_rows env self 0 df [] (emit (Print (MsgRecordCount (length df))) w1) of
                (Inl e, w2) \<Rightarrow> (Inl e, w2)
              | (Inr results, w2) \<Rightarrow>
                  (let result_df = DataFrame results;
                       w3 = emit (Print (MsgSaving output_file)) w2
                   in case to_excel env output_file result_df of
                        Some e \<Rightarrow> (Inl e, w3)
                      | None \<Rightarrow>
                          print_statistics result_df
                            (emit (Print (MsgSavedTo output_file))
                               (emit (Print MsgDone)
                                  (emit (ToExcel output_file result_df) w3))))))"

subsection \<open>main\<close>

definition default_model_name :: ustring where
  "default_model_name = ascii ''qwen/qwen3-30b-a3b-mlx''"

definition input_file :: ustring where
  "input_file =
    [0x64, 0x61, 0x74, 0x61, 0x2F, 0x32, 0x30, 0x32, 0x34, 0x5168,
     0x5E74, 0x8868, 0x632F, 0x52A8, 0x566A, 0x97F3, 0x2D, 0x7B5B, 0x9009, 0x5F,
     0x589E, 0x5F3A, 0x7248, 0x32, 0x2E, 0x78, 0x6C, 0x73, 0x78]"

definition output_file :: ustring where
  "output_file =
    [0x64, 0x61, 0x74, 0x61, 0x2F, 0x5904, 0x7406, 0x7ED3, 0x679C, 0x5F,
     0x5730, 0x94C1, 0x6295, 0x8BC9, 0x5206, 0x6790, 0x2E, 0x78, 0x6C, 0x73,
     0x78]"

text \<open>\<open>main\<close>: the handler prints the exception and raises it again.\<close>

definition main :: "'m env \<Rightarrow> 'm world \<Rightarrow> (py_exception + unit) \<times> 'm world" where
  "main env w =
     (case init env default_model_name w of
        (Inl e, w1) \<Rightarrow> (Inl e, emit (Print (MsgMainError e)) w1)
      | (Inr self, w1) \<Rightarrow>
          (case process_excel_file env self input_file output_file w1 of
             (Inl e, w2) \<Rightarrow> (Inl e, emit (Print (MsgMainError e)) w2)
           | (Inr u, w2) \<Rightarrow> (Inr u, w2)))"

section \<open>Vocabulary of the statements and example runs\<close>

text \<open>
  A content cell the guard of \<open>extract_info_from_content\<close> accepts: a text or a
  missing value.
\<close>

definition is_text_or_missing :: "cell \<Rightarrow> bool" where
  "is_text_or_missing c = (case c of CInt n \<Rightarrow> False | CStr s \<Rightarrow> True | CNA \<Rightarrow> True)"

text \<open>
  The second end-to-end example of the specification: a complaint text, and the answer
  of a stub model for it, as a dictionary and as an object. The field
  \<open>vibration_type\<close> holds the string \<open>null\<close>.
\<close>

definition example_content :: ustring where
  "example_content =
    [0x31, 0x53F7, 0x7EBF, 0x566A, 0x97F3, 0x5F88, 0x5927, 0xFF0C, 0x5C0F, 0x533A,
     0x662F, 0x671B, 0x4EAC, 0x82B1, 0x56ED]"

definition example_dict :: "ustring \<rightharpoonup> ustring option" where
  "example_dict =
     map_of [(ascii ''line'', Some [0x31, 0x53F7, 0x7EBF]),
             (ascii ''location'', Some [0x671B, 0x4EAC, 0x82B1, 0x56ED]),
             (ascii ''noise_type'', Some [0x5217, 0x8F66, 0x566A, 0x97F3]),
             (ascii ''vibration_type'', Some (ascii ''null''))]"

definition example_object :: ComplaintInfoSchema where
  "example_object =
     \<lparr>line = Some [0x31, 0x53F7, 0x7EBF], location = Some [0x671B, 0x4EAC, 0x82B1, 0x56ED],
      noise_type = Some [0x5217, 0x8F66, 0x566A, 0x97F3], vibration_type = Some (ascii ''null'')\<rparr>"

text \<open>
  Environments for the examples: a runtime that connects and gives the same answer to
  every prompt (its state counts the calls), over a given input table; and a runtime
  that cannot be reached.
\<close>

definition stub_env :: "respond_result \<Rightarrow> row list \<Rightarrow> nat env" where
  "stub_env answer table =
     \<lparr>lms_llm = (\<lambda>m. (Inr LLM, m)),
      respond = (\<lambda>m prompt. (answer, Suc m)),
      read_excel = (\<lambda>path. Inr table),
      to_excel = (\<lambda>path df. None)\<rparr>"

definition offline_env :: "nat env" where
  "offline_env =
     \<lparr>lms_llm = (\<lambda>m. (Inl (OtherException 0), m)),
      respond = (\<lambda>m prompt. (Raises (OtherException 0), m)),
      read_excel = (\<lambda>path. Inr []),
      to_excel = (\<lambda>path df. None)\<rparr>"

definition world0 :: "nat world" where
  "world0 = \<lparr>runtime = 0, trace = []\<rparr>"

definition ready :: processor where
  "ready = \<lparr>model_name = default_model_name, model = Some LLM\<rparr>"

text \<open>
  Rows: the first example of the specification (empty content, phone \<open>123\<close>), the
  row of the second (phone \<open>456\<close>), and a row whose content cell is a number.
\<close>

definition blank_row :: row where
  "blank_row = \<lparr>col_gongdan_neirong = Some (CStr []), col_laidian_haoma = Some (CStr (ascii ''123''))\<rparr>"

definition text_row :: row where
  "text_row =
     \<lparr>col_gongdan_neirong = Some (CStr example_content),
      col_laidian_haoma = Some (CStr (ascii ''456''))\<rparr>"

definition numeric_row :: row where
  "numeric_row = \<lparr>col_gongdan_neirong = Some (CInt 5), col_laidian_haoma = Some (CInt 123)\<rparr>"

definition eleven_rows :: "row list" where
  "eleven_rows =
     [blank_row, blank_row, blank_row, blank_row, blank_row, blank_row, blank_row, blank_row,
      blank_row, text_row, text_row]"

section \<open>Auxiliary facts\<close>

subsection \<open>Strings\<close>

lemma dropWhile_all: "(\<forall>x\<in>set (dropWhile P s). P x) \<longleftrightarrow> (\<forall>c\<in>set s. P c)"
  by (induction s) auto

lemma strip_empty_iff: "strip s = [] \<longleftrightarrow> (\<forall>c\<in>set s. py_isspace c)"
  by (simp add: strip_def dropWhile_all)

lemma strip_Nil: "strip [] = []"
  by (simp add: strip_def)

lemma strip_example: "strip example_content \<noteq> []"
  by (simp add: strip_def example_content_def py_isspace_def)

lemmas ex_defs = stub_env_def ready_def world0_def blank_row_def text_row_def numeric_row_def
  row_get_def emit_def

subsection \<open>The extraction step\<close>

lemma extract_total_on_text:
  "\<exists>info w1. extract_info_from_content env self (CStr s) w = (Inr info, w1)"
  by (cases "try_block env self (build_prompt s) w")
     (auto simp: extract_info_from_content_def split: sum.splits)

lemma extract_total:
  assumes "is_text_or_missing c"
  shows "\<exists>info w1. extract_info_from_content env self c w = (Inr info, w1)"
proof (cases c)
  case (CStr s)
  then show ?thesis using extract_total_on_text [of env self s w] by simp
next
  case CNA
  then show ?thesis by (simp add: extract_info_from_content_def)
next
  case (CInt n)
  with assms show ?thesis by (simp add: is_text_or_missing_def)
qed

lemma extract_keeps_sleeps:
  assumes "extract_info_from_content env self c w = (res, w1)"
  shows "count_list (trace w1) (Sleep n) = count_list (trace w) (Sleep n)"
  using assms
  by (auto simp: extract_info_from_content_def try_block_def emit_def
           split: cell.splits if_splits option.splits prod.splits sum.splits
                  respond_result.splits parsed.splits)

subsection \<open>The batch loop\<close>

lemma process_row_carries:
  assumes "process_row env self idx r results w = (Inr results1, w1)"
  shows "\<exists>x. results1 = results @ [x] \<and>
             gongdan_neirong x = row_get (col_gongdan_neirong r) (CStr []) \<and>
             laidian_haoma x = row_get (col_laidian_haoma r) (CStr [])"
  using assms by (auto simp: process_row_def Let_def split: prod.splits sum.splits)

lemma process_rows_carries:
  assumes "process_rows env self idx rows results0 w = (Inr results, w1)"
  shows "map gongdan_neirong results =
           map gongdan_neirong results0 @ map (\<lambda>r. row_get (col_gongdan_neirong r) (CStr [])) rows \<and>
         map laidian_haoma results =
           map laidian_haoma results0 @ map (\<lambda>r. row_get (col_laidian_haoma r) (CStr [])) rows"
  using assms
proof (induction rows arbitrary: idx results0 w)
  case Nil
  then show ?case by simp
next
  case (Cons r rows)
  from Cons.prems obtain res1 wa where
    step: "process_row env self idx r results0 w = (Inr res1, wa)" and
    rest: "process_rows env self (idx + 1) rows res1 wa = (Inr results, w1)"
    by (auto split: prod.splits sum.splits)
  from process_row_carries [OF step] obtain x where
    x: "res1 = results0 @ [x]"
       "gongdan_neirong x = row_get (col_gongdan_neirong r) (CStr [])"
       "laidian_haoma x = row_get (col_laidian_haoma r) (CStr [])"
    by blast
  from Cons.IH [OF rest] x show ?case by simp
qed

lemma process_rows_length:
  assumes "process_rows env self idx rows results0 w = (Inr results, w1)"
  shows "length results = length results0 + length rows"
proof -
  from process_rows_carries [OF assms]
  have "length (map gongdan_neirong results) =
        length (map gongdan_neirong results0 @
                map (\<lambda>r. row_get (col_gongdan_neirong r) (CStr [])) rows)"
    by simp
  then show ?thesis by simp
qed

lemma process_row_total:
  assumes "is_text_or_missing (row_get (col_gongdan_neirong r) (CStr []))"
  shows "\<exists>results1 w1. process_row env self idx r results w = (Inr results1, w1)"
proof -
  from extract_total [OF assms, of env self w] obtain info wa where
    "extract_info_from_content env self (row_get (col_gongdan_neirong r) (CStr [])) w
       = (Inr info, wa)" by blast
  then show ?thesis by (simp add: process_row_def Let_def)
qed

lemma process_rows_total:
  assumes "\<forall>r\<in>set rows. is_text_or_missing (row_get (col_gongdan_neirong r) (CStr []))"
  shows "\<exists>results1 w1. process_rows env self idx rows results w = (Inr results1, w1)"
  using assms
proof (induction rows arbitrary: idx results w)
  case Nil
  then show ?case by simp
next
  case (Cons r rows)
  then have "is_text_or_missing (row_get (col_gongdan_neirong r) (CStr []))" by simp
  from process_row_total [OF this, of env self idx results w] obtain res1 wa where
    step: "process_row env self idx r results w = (Inr res1, wa)" by blast
  from Cons.IH [of "idx + 1" res1 wa] Cons.prems obtain res2 wb where
    "process_rows env self (idx + 1) rows res1 wa = (Inr res2, wb)" by auto
  with step show ?case by simp
qed

lemma process_row_sleeps:
  assumes "process_row env self idx r results w = (Inr results1, w1)"
  shows "count_list (trace w1) (Sleep 1) =
           count_list (trace w) (Sleep 1) + (if (idx + 1) mod 10 = 0 then 1 else 0)"
proof -
  obtain res wa where ex: "extract_info_from_content env self
      (row_get (col_gongdan_neirong r) (CStr [])) w = (res, wa)"
    by (cases "extract_info_from_content env self (row_get (col_gongdan_neirong r) (CStr [])) w")
  from extract_keeps_sleeps [OF ex] assms ex show ?thesis
    by (auto simp: process_row_def Let_def emit_def split: sum.splits if_splits)
qed

lemma process_rows_sleeps:
  assumes "process_rows env self idx rows results w = (Inr results1, w1)"
  shows "count_list (trace w1) (Sleep 1) + idx div 10 =
           count_list (trace w) (Sleep 1) + (idx + length rows) div 10"
  using assms
proof (induction rows arbitrary: idx results w)
  case Nil
  then show ?case by simp
next
  case (Cons r rows)
  from Cons.prems obtain res1 wa where
    step: "process_row env self idx r results w = (Inr res1, wa)" and
    rest: "process_rows env self (idx + 1) rows res1 wa = (Inr results1, w1)"
    by (auto split: prod.splits sum.splits)
  have a: "(idx + 1) div 10 = idx div 10 + (if (idx + 1) mod 10 = 0 then 1 else 0)"
    by presburger
  from Cons.IH [OF rest] process_row_sleeps [OF step] a show ?case
    by (simp split: if_splits)
qed

lemma process_rows_append:
  "process_rows env self idx (xs @ ys) results w =
     (case process_rows env self idx xs results w of
        (Inl e, wa) \<Rightarrow> (Inl e, wa)
      | (Inr results1, wa) \<Rightarrow> process_rows env self (idx + length xs) ys results1 wa)"
  by (induction xs arbitrary: idx results w) (auto split: prod.splits sum.splits)

lemma process_rows_prefix:
  assumes "process_rows env self idx rows results w = (Inr out, wa)" and "k \<le> length rows"
  shows "\<exists>resk wk. process_rows env self idx (take k rows) results w = (Inr resk, wk) \<and>
                  process_rows env self (idx + k) (drop k rows) resk wk = (Inr out, wa)"
proof -
  have "process_rows env self idx (take k rows @ drop k rows) results w = (Inr out, wa)"
    using assms(1) by simp
  then show ?thesis
    using assms(2)
    by (simp only: process_rows_append) (auto split: prod.splits sum.splits simp: min_absorb2)
qed

subsection \<open>The statistics\<close>

lemma getitem_DataFrame:
  "results \<noteq> [] \<Longrightarrow> key \<in> {Xianlu, Xiaoqu_weizhi, Zaoyin_leixing, Zhendong_leixing} \<Longrightarrow>
   getitem (DataFrame results) key sel = Inr (map sel results)"
  by (auto simp: getitem_def DataFrame_def)

lemma print_count_DataFrame:
  "results \<noteq> [] \<Longrightarrow> key \<in> {Xianlu, Xiaoqu_weizhi, Zaoyin_leixing, Zhendong_leixing} \<Longrightarrow>
   print_count (DataFrame results) key sel msg w =
     (Inr (), emit (Print (msg (notna_sum (map sel results)))) w)"
  by (simp add: print_count_def getitem_DataFrame)

lemma print_distribution_DataFrame_eq:
  "results \<noteq> [] \<Longrightarrow> key \<in> {Xianlu, Xiaoqu_weizhi, Zaoyin_leixing, Zhendong_leixing} \<Longrightarrow>
   print_distribution (DataFrame results) key sel header w =
     (Inr (),
      emit_all
        (if notna_sum (map sel results) > 0
         then Print header #
              map (\<lambda>(v, n). Print (MsgEntry v n)) (take 10 (value_counts (map sel results)))
         else []) w)"
  by (simp add: print_distribution_def getitem_DataFrame emit_all_def emit_def)

lemma print_distribution_DataFrame:
  "results \<noteq> [] \<Longrightarrow> key \<in> {Xianlu, Xiaoqu_weizhi, Zaoyin_leixing, Zhendong_leixing} \<Longrightarrow>
   fst (print_distribution (DataFrame results) key sel header w) = Inr ()"
  by (simp add: print_distribution_def getitem_DataFrame)

lemma fst_and_then:
  "fst r = Inr () \<Longrightarrow> (\<And>w. fst (f w) = Inr ()) \<Longrightarrow> fst (and_then r f) = Inr ()"
  by (cases r) (auto simp: and_then_def split: sum.splits)

lemma print_statistics_DataFrame:
  assumes "results \<noteq> []"
  shows "fst (print_statistics (DataFrame results) w) = Inr ()"
  unfolding print_statistics_def
  by (intro fst_and_then) (simp_all add: print_count_DataFrame print_distribution_DataFrame assms)

lemma print_statistics_nonempty:
  assumes "results \<noteq> []"
  shows "print_statistics (DataFrame results) w =
     (Inr (),
      emit_all
        ([Print MsgStatsHeader, Print (MsgTotal (length results)),
          Print (MsgXianluCount (notna_sum (map rr_xianlu results))),
          Print (MsgXiaoquWeizhiCount (notna_sum (map rr_xiaoqu_weizhi results))),
          Print (MsgZaoyinLeixingCount (notna_sum (map rr_zaoyin_leixing results))),
          Print (MsgZhendongLeixingCount (notna_sum (map rr_zhendong_leixing results)))] @
         (if notna_sum (map rr_xianlu results) > 0
          then Print MsgXianluHeader #
               map (\<lambda>(v, n). Print (MsgEntry v n))
                 (take 10 (value_counts (map rr_xianlu results)))
          else []) @
         (if notna_sum (map rr_zaoyin_leixing results) > 0
          then Print MsgZaoyinLeixingHeader #
               map (\<lambda>(v, n). Print (MsgEntry v n))
                 (take 10 (value_counts (map rr_zaoyin_leixing results)))
          else [])) w)"
proof -
  have rows: "df_rows (DataFrame results) = results" by (simp add: DataFrame_def)
  show ?thesis
    unfolding print_statistics_def
    by (simp add: print_count_DataFrame print_distribution_DataFrame_eq assms and_then_def rows
          emit_all_def emit_def)
qed

text \<open>
  The model of \<open>value_counts\<close>: the entries are the values of the column with their
  numbers of occurrences, in descending order of the counts, and entries with the same
  count stand in the order of their first occurrence.
\<close>

lemma value_counts_descending:
  "sorted (map (\<lambda>(k, n). - int n) (value_counts col))"
  by (simp add: value_counts_def Let_def)

lemma count_list_present:
  "count_list (map the (filter (\<lambda>v. v \<noteq> None) col)) k = count_list col (Some k)"
  by (induction col) auto

lemma value_counts_entries:
  "set (value_counts col) = (\<lambda>k. (k, count_list col (Some k))) ` {k. Some k \<in> set col}"
proof -
  have "set (map the (filter (\<lambda>v. v \<noteq> None) col)) = {k. Some k \<in> set col}"
    by force
  then show ?thesis
    by (simp add: value_counts_def Let_def count_list_present del: not_None_eq)
qed

lemma value_counts_ties:
  "filter (\<lambda>(k, n). n = c) (value_counts col) =
   filter (\<lambda>(k, n). n = c)
     (map (\<lambda>k. (k, count_list col (Some k)))
        (rev (remdups (rev (map the (filter (\<lambda>v. v \<noteq> None) col))))))"
proof -
  let ?f = "\<lambda>(k :: ustring, n :: nat). - int n"
  have eq: "(\<lambda>(k :: ustring, n :: nat). n = c) = (\<lambda>y. ?f y = - int c)"
    by auto
  have "value_counts col =
          sort_key ?f (map (\<lambda>k. (k, count_list col (Some k)))
            (rev (remdups (rev (map the (filter (\<lambda>v. v \<noteq> None) col))))))"
    by (simp add: value_counts_def Let_def count_list_present del: not_None_eq)
  then show ?thesis
    unfolding eq by (simp only: sort_key_stable)
qed

lemma value_counts_example:
  "value_counts [Some [1], None, Some [2], Some [2], Some [3], Some [1]] =
     [([1], 2), ([2], 2), ([3], 1)]"
  by (simp add: value_counts_def)

lemma process_excel_file_read_fails:
  "read_excel env inp = Inl e \<Longrightarrow>
   process_excel_file env self inp out w =
     (Inl e, emit (ReadExcel inp) (emit (Print (MsgReading inp)) w))"
  by (simp add: process_excel_file_def)

section \<open>Row count and order\<close>

text \<open>
  C1, as amended. For every input table whose content cells are texts or missing values,
  and whatever the model does (it may raise or answer nonsense for any record), the
  batch loop returns one result row per input row, in the order of the input: row
  \<open>i\<close> of the result carries the content and the phone of row \<open>i\<close> of the input.
\<close>

theorem one_row_per_text_record:
  assumes "\<forall>r\<in>set rows. is_text_or_missing (row_get (col_gongdan_neirong r) (CStr []))"
  shows "\<exists>results w1.
           process_rows env self 0 rows [] w = (Inr results, w1) \<and>
           length results = length rows \<and>
           (\<forall>i<length rows.
              gongdan_neirong (results ! i) = row_get (col_gongdan_neirong (rows ! i)) (CStr []) \<and>
              laidian_haoma (results ! i) = row_get (col_laidian_haoma (rows ! i)) (CStr []))"
proof -
  from process_rows_total [OF assms, of env self 0 "[]" w] obtain results w1 where
    run: "process_rows env self 0 rows [] w = (Inr results, w1)" by blast
  have len: "length results = length rows"
    using process_rows_length [OF run] by simp
  from process_rows_carries [OF run] have
    c: "map gongdan_neirong results = map (\<lambda>r. row_get (col_gongdan_neirong r) (CStr [])) rows"
    and p: "map laidian_haoma results = map (\<lambda>r. row_get (col_laidian_haoma r) (CStr [])) rows"
    by simp_all
  have "\<forall>i<length rows.
          gongdan_neirong (results ! i) = row_get (col_gongdan_neirong (rows ! i)) (CStr []) \<and>
          laidian_haoma (results ! i) = row_get (col_laidian_haoma (rows ! i)) (CStr [])"
  proof (intro allI impI)
    fix i assume i: "i < length rows"
    have "map gongdan_neirong results ! i = gongdan_neirong (results ! i)"
         "map laidian_haoma results ! i = laidian_haoma (results ! i)"
      using i len by simp_all
    with c p i show
      "gongdan_neirong (results ! i) = row_get (col_gongdan_neirong (rows ! i)) (CStr []) \<and>
       laidian_haoma (results ! i) = row_get (col_laidian_haoma (rows ! i)) (CStr [])"
      by simp
  qed
  with run len show ?thesis by blast
qed

text \<open>
  An instance: a table of two rows, with a model that raises at every call. Both rows
  are in the result.
\<close>

theorem one_row_per_text_record_witness:
  "is_text_or_missing (row_get (col_gongdan_neirong blank_row) (CStr [])) \<and>
   is_text_or_missing (row_get (col_gongdan_neirong text_row) (CStr [])) \<and>
   (\<exists>results wa.
      process_rows (stub_env (Raises (OtherException 1)) []) ready 0 [blank_row, text_row] []
        world0 = (Inr results, wa) \<and>
      length results = 2 \<and>
      gongdan_neirong (results ! 0) = CStr [] \<and>
      laidian_haoma (results ! 0) = CStr (ascii ''123'') \<and>
      gongdan_neirong (results ! 1) = CStr example_content \<and>
      laidian_haoma (results ! 1) = CStr (ascii ''456''))"
proof -
  have ok: "\<forall>r\<in>set [blank_row, text_row].
              is_text_or_missing (row_get (col_gongdan_neirong r) (CStr []))"
    by (simp add: ex_defs is_text_or_missing_def)
  from one_row_per_text_record [OF ok, of "stub_env (Raises (OtherException 1)) []" ready world0]
  obtain results wa where
    run: "process_rows (stub_env (Raises (OtherException 1)) []) ready 0 [blank_row, text_row] []
            world0 = (Inr results, wa)" and
    len: "length results = length [blank_row, text_row]" and
    rows: "\<forall>i<length [blank_row, text_row].
             gongdan_neirong (results ! i) =
               row_get (col_gongdan_neirong ([blank_row, text_row] ! i)) (CStr []) \<and>
             laidian_haoma (results ! i) =
               row_get (col_laidian_haoma ([blank_row, text_row] ! i)) (CStr [])"
    by blast
  from rows have "gongdan_neirong (results ! 0) = CStr [] \<and>
      laidian_haoma (results ! 0) = CStr (ascii ''123'')"
    by (simp add: ex_defs)
  moreover from rows [rule_format, of 1] have "gongdan_neirong (results ! 1) = CStr example_content \<and>
      laidian_haoma (results ! 1) = CStr (ascii ''456'')"
    by (simp add: ex_defs)
  moreover have "is_text_or_missing (row_get (col_gongdan_neirong blank_row) (CStr [])) \<and>
   is_text_or_missing (row_get (col_gongdan_neirong text_row) (CStr []))"
    using ok by simp
  ultimately show ?thesis using run len by auto
qed

text \<open>
  C1 as stated fails. A table of two rows, the second with a number as its content:
  \<open>content.strip()\<close> raises \<open>AttributeError\<close> outside the \<open>try\<close>, the run stops after
  the first record and no table is written (no \<open>ToExcel\<close> in the trace), so the two
  input rows have no output row.
\<close>

theorem non_text_content_no_output:
  "process_excel_file (stub_env (Returns (ParsedDict example_dict)) [text_row, numeric_row])
     ready input_file output_file world0 =
     (Inl AttributeError,
      \<lparr>runtime = 1,
       trace = [Print (MsgReading input_file), ReadExcel input_file, Print (MsgRecordCount 2),
                Respond (build_prompt example_content)]\<rparr>)"
  using strip_example
  by (simp add: process_excel_file_def ex_defs process_row_def extract_info_from_content_def
        try_block_def)

section \<open>Skipped records\<close>

text \<open>
  C2. For a record whose content is missing (\<open>CNA\<close>) or the empty text,
  \<open>extract_info_from_content\<close> returns the four fields absent and leaves the world as
  it was: the model is not called (no \<open>Respond\<close> joins the trace, the runtime's state is
  the same) and nothing is printed.
\<close>

theorem extract_empty_or_missing:
  "extract_info_from_content env self CNA w = (Inr all_none, w) \<and>
   extract_info_from_content env self (CStr []) w = (Inr all_none, w)"
  by (simp add: extract_info_from_content_def strip_def)

text \<open>
  C10. A text made of whitespace only is skipped like the empty text: the four fields
  are absent and the world is unchanged, so the model is not called.
\<close>

theorem extract_whitespace_only:
  "\<forall>c\<in>set s. py_isspace c \<Longrightarrow>
   extract_info_from_content env self (CStr s) w = (Inr all_none, w)"
  by (simp add: extract_info_from_content_def strip_empty_iff)

text \<open>
  An instance: a space, a tab, an ideographic space and a line feed.
\<close>

theorem extract_whitespace_only_witness:
  "py_isspace 0x20 \<and> py_isspace 0x09 \<and> py_isspace 0x3000 \<and> py_isspace 0x0A \<and>
   extract_info_from_content (stub_env (Returns (ParsedDict example_dict)) []) ready
     (CStr [0x20, 0x09, 0x3000, 0x0A]) world0 = (Inr all_none, world0)"
proof -
  have ws: "\<forall>c\<in>set [0x20, 0x09, 0x3000, 0x0A]. py_isspace c"
    by (simp add: py_isspace_def)
  from extract_whitespace_only [OF ws] ws show ?thesis by simp
qed

section \<open>Failures of the model\<close>

text \<open>
  C3. When the model raises \<open>e\<close> for a record with a non-blank text, or returns a value
  without the four fields (reading it raises \<open>AttributeError\<close>),
  \<open>extract_info_from_content\<close> does not raise: it prints the failure and returns the four
  fields absent. In the batch loop the rows built so far are kept, the row of this
  record is appended with its four fields absent, and the loop goes on with the
  remaining records from the next index.
\<close>

theorem model_failure_contained:
  fixes w :: "'m world"
  defines "absent c p \<equiv>
     \<lparr>gongdan_neirong = c, laidian_haoma = p, rr_xianlu = None, rr_xiaoqu_weizhi = None,
      rr_zaoyin_leixing = None, rr_zhendong_leixing = None\<rparr>"
  assumes "model self = Some h" and "strip s \<noteq> []"
    and "respond env (runtime w) (build_prompt s) = (r, m)"
    and "r = Raises e \<or> (r = Returns ParsedOther \<and> e = AttributeError)"
    and "wa = emit (Print (MsgModelCallFailed e)) (emit (Respond (build_prompt s)) (w\<lparr>runtime := m\<rparr>))"
    and "row_get (col_gongdan_neirong rw) (CStr []) = CStr s"
  shows "extract_info_from_content env self (CStr s) w = (Inr all_none, wa) \<and>
         process_rows env self idx (rw # rest) results w =
           process_rows env self (idx + 1) rest
             (results @ [absent (CStr s) (row_get (col_laidian_haoma rw) (CStr []))])
             (if (idx + 1) mod 10 = 0
              then emit (Print (MsgProcessed (idx + 1))) (emit (Sleep 1) wa) else wa)"
proof -
  have tb: "try_block env self (build_prompt s) w =
              (Inl e, emit (Respond (build_prompt s)) (w\<lparr>runtime := m\<rparr>))"
    using assms(2,4,5) by (auto simp: try_block_def)
  have ex: "extract_info_from_content env self (CStr s) w = (Inr all_none, wa)"
    using tb assms(3,6) by (simp add: extract_info_from_content_def)
  have "process_row env self idx rw results w =
           (Inr (results @ [absent (CStr s) (row_get (col_laidian_haoma rw) (CStr []))]),
            if (idx + 1) mod 10 = 0
            then emit (Print (MsgProcessed (idx + 1))) (emit (Sleep 1) wa) else wa)"
    using ex assms(7) by (simp add: process_row_def absent_def all_none_def)
  with ex show ?thesis by simp
qed

text \<open>
  An instance: the model raises at every call; a table of a text row and a blank row
  gives two rows.
\<close>

theorem model_failure_contained_witness:
  "extract_info_from_content (stub_env (Raises (OtherException 1)) []) ready
     (CStr example_content) world0 =
     (Inr all_none,
      \<lparr>runtime = 1, trace = [Respond (build_prompt example_content),
                               Print (MsgModelCallFailed (OtherException 1))]\<rparr>) \<and>
   process_rows (stub_env (Raises (OtherException 1)) []) ready 0 [text_row, blank_row] [] world0 =
     (Inr [\<lparr>gongdan_neirong = CStr example_content, laidian_haoma = CStr (ascii ''456''),
            rr_xianlu = None, rr_xiaoqu_weizhi = None,
            rr_zaoyin_leixing = None, rr_zhendong_leixing = None\<rparr>,
           \<lparr>gongdan_neirong = CStr [], laidian_haoma = CStr (ascii ''123''),
            rr_xianlu = None, rr_xiaoqu_weizhi = None,
            rr_zaoyin_leixing = None, rr_zhendong_leixing = None\<rparr>],
      \<lparr>runtime = 1, trace = [Respond (build_prompt example_content),
                               Print (MsgModelCallFailed (OtherException 1))]\<rparr>)"
  using model_failure_contained
    [where self = ready and h = LLM and s = example_content
       and env = "stub_env (Raises (OtherException 1)) []" and w = world0
       and r = "Raises (OtherException 1)" and m = 1 and e = "OtherException 1"
       and wa = "\<lparr>runtime = 1, trace = [Respond (build_prompt example_content),
                               Print (MsgModelCallFailed (OtherException 1))]\<rparr>"
       and rw = text_row and idx = 0 and results = "[]" and rest = "[blank_row]"]
    strip_example
  by (simp add: ex_defs process_row_def extract_info_from_content_def strip_def all_none_def)

text \<open>
  C5, as amended. For a non-empty table whose content cells are texts or missing values,
  no failure of the model stops the run: the loop builds a row for every record, and
  \<open>process_excel_file\<close> raises exactly when writing the table raises (reading it has
  succeeded by assumption).
\<close>

theorem model_failures_never_abort:
  fixes w :: "'m world"
  assumes "read_excel env inp = Inr df" and "df \<noteq> []"
    and "\<forall>r\<in>set df. is_text_or_missing (row_get (col_gongdan_neirong r) (CStr []))"
  shows "\<exists>results. length results = length df \<and>
           fst (process_excel_file env self inp out w) =
             (case to_excel env out (DataFrame results) of
                Some e \<Rightarrow> Inl e | None \<Rightarrow> Inr ())"
proof -
  define w0 where
    "w0 = emit (Print (MsgRecordCount (length df)))
            (emit (ReadExcel inp) (emit (Print (MsgReading inp)) w))"
  from process_rows_total [OF assms(3), of env self 0 "[]" w0] obtain results wa where
    run: "process_rows env self 0 df [] w0 = (Inr results, wa)" by blast
  from process_rows_length [OF run] have len: "length results = length df" by simp
  with assms(2) have ne: "results \<noteq> []" by auto
  have stats: "fst (print_statistics (DataFrame results) wx) = Inr ()" for wx :: "'m world"
    by (rule print_statistics_DataFrame [OF ne])
  have "fst (process_excel_file env self inp out w) =
          (case to_excel env out (DataFrame results) of Some e \<Rightarrow> Inl e | None \<Rightarrow> Inr ())"
  proof (cases "to_excel env out (DataFrame results)")
    case None
    with assms(1) run show ?thesis
      by (simp add: process_excel_file_def Let_def w0_def stats)
  next
    case (Some e)
    with assms(1) run show ?thesis
      by (simp add: process_excel_file_def Let_def w0_def)
  qed
  with len show ?thesis by blast
qed

text \<open>
  An instance: the model raises at every call and the run ends normally.
\<close>

theorem model_failures_never_abort_witness:
  "read_excel (stub_env (Raises (OtherException 1)) [text_row, blank_row]) input_file =
     Inr [text_row, blank_row] \<and>
   [text_row, blank_row] \<noteq> [] \<and>
   is_text_or_missing (row_get (col_gongdan_neirong text_row) (CStr [])) \<and>
   is_text_or_missing (row_get (col_gongdan_neirong blank_row) (CStr [])) \<and>
   fst (process_excel_file (stub_env (Raises (OtherException 1)) [text_row, blank_row]) ready
          input_file output_file world0) = Inr ()"
proof -
  have r: "read_excel (stub_env (Raises (OtherException 1)) [text_row, blank_row]) input_file =
     Inr [text_row, blank_row]"
    by (simp add: stub_env_def)
  have ne: "[text_row, blank_row] \<noteq> []" by simp
  have ok: "\<forall>r\<in>set [text_row, blank_row].
              is_text_or_missing (row_get (col_gongdan_neirong r) (CStr []))"
    by (simp add: ex_defs is_text_or_missing_def)
  from model_failures_never_abort [OF r ne ok, of ready output_file world0] r ok
  show ?thesis by (auto simp: stub_env_def)
qed

text \<open>
  C5 as stated fails. The first record has a number as its content: the exception
  of its extraction step reaches \<open>main\<close>, which raises it again; the second record is
  never processed (the model is never called) and nothing is written.
\<close>

theorem non_text_content_aborts_run:
  "main (stub_env (Returns (ParsedDict example_dict)) [numeric_row, text_row]) world0 =
     (Inl AttributeError,
      \<lparr>runtime = 0,
       trace = [Print (MsgConnecting default_model_name), LmsLlm, Print MsgConnected,
                Print (MsgReading input_file), ReadExcel input_file, Print (MsgRecordCount 2),
                Print (MsgMainError AttributeError)]\<rparr>)"
  by (simp add: main_def init_def initialize_model_def process_excel_file_def ex_defs
        process_row_def extract_info_from_content_def)

section \<open>Normalisation of the answer\<close>

text \<open>
  C4. \<open>convert_null\<close> maps the string \<open>null\<close> to \<open>None\<close>, \<open>None\<close> to \<open>None\<close> and every
  other string to itself; and for a non-blank text each of the four fields of the
  result is \<open>convert_null\<close> of the corresponding field of the answer, both when the
  answer is a dictionary and when it is an object.
\<close>

theorem null_becomes_absent:
  "convert_null (Some (ascii ''null'')) = None \<and>
   convert_null None = None \<and>
   (v \<noteq> ascii ''null'' \<longrightarrow> convert_null (Some v) = Some v) \<and>
   (model self = Some h \<and> strip s \<noteq> [] \<and>
    respond env (runtime w) (build_prompt s) = (Returns (ParsedDict d), m) \<longrightarrow>
      fst (extract_info_from_content env self (CStr s) w) =
        Inr \<lparr>xianlu = convert_null (dict_get d (ascii ''line'')),
             xiaoqu_weizhi = convert_null (dict_get d (ascii ''location'')),
             zaoyin_leixing = convert_null (dict_get d (ascii ''noise_type'')),
             zhendong_leixing = convert_null (dict_get d (ascii ''vibration_type''))\<rparr>) \<and>
   (model self = Some h \<and> strip s \<noteq> [] \<and>
    respond env (runtime w) (build_prompt s) = (Returns (ParsedObject obj), m) \<longrightarrow>
      fst (extract_info_from_content env self (CStr s) w) =
        Inr \<lparr>xianlu = convert_null (line obj),
             xiaoqu_weizhi = convert_null (location obj),
             zaoyin_leixing = convert_null (noise_type obj),
             zhendong_leixing = convert_null (vibration_type obj)\<rparr>)"
proof -
  have a: "convert_null (Some (ascii ''null'')) = None" "convert_null None = None"
    by (simp_all add: convert_null_def)
  have b: "v \<noteq> ascii ''null'' \<longrightarrow> convert_null (Some v) = Some v"
    by (simp add: convert_null_def)
  have c: "model self = Some h \<and> strip s \<noteq> [] \<and>
    respond env (runtime w) (build_prompt s) = (Returns (ParsedDict d), m) \<longrightarrow>
      fst (extract_info_from_content env self (CStr s) w) =
        Inr \<lparr>xianlu = convert_null (dict_get d (ascii ''line'')),
             xiaoqu_weizhi = convert_null (dict_get d (ascii ''location'')),
             zaoyin_leixing = convert_null (dict_get d (ascii ''noise_type'')),
             zhendong_leixing = convert_null (dict_get d (ascii ''vibration_type''))\<rparr>"
    by (simp add: extract_info_from_content_def try_block_def)
  have d: "model self = Some h \<and> strip s \<noteq> [] \<and>
    respond env (runtime w) (build_prompt s) = (Returns (ParsedObject obj), m) \<longrightarrow>
      fst (extract_info_from_content env self (CStr s) w) =
        Inr \<lparr>xianlu = convert_null (line obj),
             xiaoqu_weizhi = convert_null (location obj),
             zaoyin_leixing = convert_null (noise_type obj),
             zhendong_leixing = convert_null (vibration_type obj)\<rparr>"
    by (simp add: extract_info_from_content_def try_block_def)
  from a b c d show ?thesis by blast
qed

text \<open>
  An instance: the second end-to-end example of the specification, with the answer as a
  dictionary and as an object. Three fields pass through, the \<open>null\<close> one is absent.
\<close>

theorem null_becomes_absent_witness:
  "convert_null (Some [0x31, 0x53F7, 0x7EBF]) = Some [0x31, 0x53F7, 0x7EBF] \<and>
   fst (extract_info_from_content (stub_env (Returns (ParsedDict example_dict)) []) ready
          (CStr example_content) world0) =
     Inr \<lparr>xianlu = Some [0x31, 0x53F7, 0x7EBF],
          xiaoqu_weizhi = Some [0x671B, 0x4EAC, 0x82B1, 0x56ED],
          zaoyin_leixing = Some [0x5217, 0x8F66, 0x566A, 0x97F3],
          zhendong_leixing = None\<rparr> \<and>
   fst (extract_info_from_content (stub_env (Returns (ParsedObject example_object)) []) ready
          (CStr example_content) world0) =
     Inr \<lparr>xianlu = Some [0x31, 0x53F7, 0x7EBF],
          xiaoqu_weizhi = Some [0x671B, 0x4EAC, 0x82B1, 0x56ED],
          zaoyin_leixing = Some [0x5217, 0x8F66, 0x566A, 0x97F3],
          zhendong_leixing = None\<rparr>"
  using
    null_becomes_absent
      [where v = "[0x31, 0x53F7, 0x7EBF]" and self = ready and h = LLM and s = example_content
         and env = "stub_env (Returns (ParsedDict example_dict)) []" and w = world0
         and d = example_dict and m = 1]
    null_becomes_absent
      [where v = "[0x31, 0x53F7, 0x7EBF]" and self = ready and h = LLM and s = example_content
         and env = "stub_env (Returns (ParsedObject example_object)) []" and w = world0
         and obj = example_object and m = 1]
    strip_example
  by (simp add: ex_defs ascii_def example_dict_def example_object_def convert_null_def
        dict_get_def)

section \<open>Pacing\<close>

text \<open>
  C6. When the loop has processed the \<open>N\<close> records of a table, \<open>time.sleep(1)\<close> has
  been called \<open>N div 10\<close> times; and this holds at every point of the run: after the
  first \<open>k\<close> records it has been called \<open>k div 10\<close> times, so a pause follows each record
  whose number, counted from 1, is a multiple of 10, and no other.
\<close>

theorem pause_every_tenth:
  assumes "process_rows env self 0 rows [] w = (Inr results, wa)"
  shows "count_list (trace wa) (Sleep 1) = count_list (trace w) (Sleep 1) + length rows div 10 \<and>
         (\<forall>k\<le>length rows.
            \<exists>resk wk. process_rows env self 0 (take k rows) [] w = (Inr resk, wk) \<and>
                      process_rows env self k (drop k rows) resk wk = (Inr results, wa) \<and>
                      count_list (trace wk) (Sleep 1) = count_list (trace w) (Sleep 1) + k div 10)"
proof (intro conjI allI impI)
  show "count_list (trace wa) (Sleep 1) = count_list (trace w) (Sleep 1) + length rows div 10"
    using process_rows_sleeps [OF assms] by simp
next
  fix k assume k: "k \<le> length rows"
  from process_rows_prefix [OF assms k] obtain resk wk where
    pre: "process_rows env self 0 (take k rows) [] w = (Inr resk, wk)" and
    post: "process_rows env self k (drop k rows) resk wk = (Inr results, wa)"
    by auto
  from process_rows_sleeps [OF pre] k
  have "count_list (trace wk) (Sleep 1) = count_list (trace w) (Sleep 1) + k div 10"
    by (simp add: min_def)
  with pre post show
    "\<exists>resk wk. process_rows env self 0 (take k rows) [] w = (Inr resk, wk) \<and>
               process_rows env self k (drop k rows) resk wk = (Inr results, wa) \<and>
               count_list (trace wk) (Sleep 1) = count_list (trace w) (Sleep 1) + k div 10"
    by blast
qed

text \<open>
  An instance: eleven records. No pause after nine, one after ten, one in the whole
  run, and it stands between the model calls of the tenth and the eleventh record.
\<close>

theorem pause_every_tenth_witness:
  "(\<exists>results.
      process_rows (stub_env (Returns (ParsedDict example_dict)) []) ready 0 eleven_rows []
        world0 =
        (Inr results,
         \<lparr>runtime = 2,
          trace = [Respond (build_prompt example_content), Sleep 1, Print (MsgProcessed 10),
                   Respond (build_prompt example_content)]\<rparr>)) \<and>
   count_list [Respond (build_prompt example_content), Sleep 1, Print (MsgProcessed 10),
               Respond (build_prompt example_content)] (Sleep 1) = length eleven_rows div 10 \<and>
   (\<exists>res9 w9.
      process_rows (stub_env (Returns (ParsedDict example_dict)) []) ready 0 (take 9 eleven_rows)
        [] world0 = (Inr res9, w9) \<and> count_list (trace w9) (Sleep 1) = 0) \<and>
   (\<exists>res10 w10.
      process_rows (stub_env (Returns (ParsedDict example_dict)) []) ready 0
        (take 10 eleven_rows) [] world0 = (Inr res10, w10) \<and>
      count_list (trace w10) (Sleep 1) = 1)"
proof -
  have "\<exists>results.
      process_rows (stub_env (Returns (ParsedDict example_dict)) []) ready 0 eleven_rows []
        world0 =
        (Inr results,
         \<lparr>runtime = 2,
          trace = [Respond (build_prompt example_content), Sleep 1, Print (MsgProcessed 10),
                   Respond (build_prompt example_content)]\<rparr>)"
    using strip_example strip_Nil
    by (simp add: eleven_rows_def ex_defs process_row_def extract_info_from_content_def
          try_block_def Let_def)
  then obtain results where
    run: "process_rows (stub_env (Returns (ParsedDict example_dict)) []) ready 0 eleven_rows []
        world0 =
        (Inr results,
         \<lparr>runtime = 2,
          trace = [Respond (build_prompt example_content), Sleep 1, Print (MsgProcessed 10),
                   Respond (build_prompt example_content)]\<rparr>)" ..
  note t = pause_every_tenth [OF run]
  from t have total: "count_list [Respond (build_prompt example_content), Sleep 1,
      Print (MsgProcessed 10), Respond (build_prompt example_content)] (Sleep 1) =
      length eleven_rows div 10"
    by (simp add: world0_def)
  have le9: "9 \<le> length eleven_rows" and le10: "10 \<le> length eleven_rows"
    by (simp_all add: eleven_rows_def)
  from t [THEN conjunct2, rule_format, OF le9] have k9:
    "\<exists>res9 w9.
      process_rows (stub_env (Returns (ParsedDict example_dict)) []) ready 0 (take 9 eleven_rows)
        [] world0 = (Inr res9, w9) \<and> count_list (trace w9) (Sleep 1) = 0"
    by (auto simp: world0_def)
  from t [THEN conjunct2, rule_format, OF le10] have k10:
    "\<exists>res10 w10.
      process_rows (stub_env (Returns (ParsedDict example_dict)) []) ready 0
        (take 10 eleven_rows) [] world0 = (Inr res10, w10) \<and>
      count_list (trace w10) (Sleep 1) = 1"
    by (auto simp: world0_def)
  from run total k9 k10 show ?thesis by blast
qed

section \<open>The statistics of an empty table\<close>

text \<open>
  C7. On the frame of an empty result list the reporter prints the total and then
  raises \<open>KeyError\<close>: the frame has no column, and \<open>df[key]\<close> of the first count fails.
  No count of a field and no distribution is printed. A run of \<open>main\<close> on a table
  without rows gets there after it has written the (empty) output.
\<close>

theorem print_statistics_empty_table:
  "print_statistics (DataFrame []) w =
     (Inl KeyError, emit (Print (MsgTotal 0)) (emit (Print MsgStatsHeader) w)) \<and>
   main (stub_env (Returns ParsedOther) []) world0 =
     (Inl KeyError,
      \<lparr>runtime = 0,
       trace = [Print (MsgConnecting default_model_name), LmsLlm, Print MsgConnected,
                Print (MsgReading input_file), ReadExcel input_file, Print (MsgRecordCount 0),
                Print (MsgSaving output_file),
                ToExcel output_file \<lparr>df_columns = [], df_rows = []\<rparr>,
                Print MsgDone, Print (MsgSavedTo output_file),
                Print MsgStatsHeader, Print (MsgTotal 0),
                Print (MsgMainError KeyError)]\<rparr>)"
proof -
  have a: "print_statistics (DataFrame []) w =
     (Inl KeyError, emit (Print (MsgTotal 0)) (emit (Print MsgStatsHeader) w))" for w :: "'a world"
    by (simp add: print_statistics_def print_count_def getitem_def DataFrame_def and_then_def)
  have b: "main (stub_env (Returns ParsedOther) []) world0 =
     (Inl KeyError,
      \<lparr>runtime = 0,
       trace = [Print (MsgConnecting default_model_name), LmsLlm, Print MsgConnected,
                Print (MsgReading input_file), ReadExcel input_file, Print (MsgRecordCount 0),
                Print (MsgSaving output_file),
                ToExcel output_file \<lparr>df_columns = [], df_rows = []\<rparr>,
                Print MsgDone, Print (MsgSavedTo output_file),
                Print MsgStatsHeader, Print (MsgTotal 0),
                Print (MsgMainError KeyError)]\<rparr>)"
    by (simp add: main_def init_def initialize_model_def process_excel_file_def ex_defs
          DataFrame_def Let_def print_statistics_def print_count_def getitem_def and_then_def)
  from a b show ?thesis by simp
qed

section \<open>Start-up\<close>

text \<open>
  C8. When \<open>lms.llm()\<close> raises \<open>e\<close>, \<open>main\<close> raises \<open>e\<close>, and all it has done is print
  three messages around the failed connection: the table is not read, the model is not
  asked, nothing is written.
\<close>

theorem unreachable_model_aborts:
  assumes "lms_llm env (runtime w) = (Inl e, m)"
  shows "main env w =
           (Inl e, w\<lparr>runtime := m,
                     trace := trace w @ [Print (MsgConnecting default_model_name), LmsLlm,
                                         Print (MsgConnectFailed e), Print (MsgMainError e)]\<rparr>)"
  using assms by (simp add: main_def init_def initialize_model_def emit_def)

text \<open>
  An instance: the unreachable runtime.
\<close>

theorem unreachable_model_aborts_witness:
  "lms_llm offline_env (runtime world0) = (Inl (OtherException 0), 0) \<and>
   main offline_env world0 =
     (Inl (OtherException 0),
      \<lparr>runtime = 0,
       trace = [Print (MsgConnecting default_model_name), LmsLlm,
                Print (MsgConnectFailed (OtherException 0)),
                Print (MsgMainError (OtherException 0))]\<rparr>)"
proof -
  have h: "lms_llm offline_env (runtime world0) = (Inl (OtherException 0), 0)"
    by (simp add: offline_env_def world0_def)
  from unreachable_model_aborts [OF h] h show ?thesis by (simp add: world0_def)
qed

section \<open>Content and phone\<close>

text \<open>
  C9. Every row the loop returns carries the content and the phone of its input row
  (the value of \<open>row.get\<close>, which is the cell itself when the table has the column),
  whatever the extraction gave.
\<close>

theorem content_and_phone_carried:
  assumes "process_rows env self 0 rows [] w = (Inr results, w1)"
  shows "map gongdan_neirong results = map (\<lambda>r. row_get (col_gongdan_neirong r) (CStr [])) rows \<and>
         map laidian_haoma results = map (\<lambda>r. row_get (col_laidian_haoma r) (CStr [])) rows"
  using process_rows_carries [OF assms] by simp

text \<open>
  An instance: the two end-to-end examples of the specification in one table.
\<close>

theorem content_and_phone_carried_witness:
  "process_rows (stub_env (Returns (ParsedDict example_dict)) []) ready 0 [blank_row, text_row] []
     world0 =
     (Inr [\<lparr>gongdan_neirong = CStr [], laidian_haoma = CStr (ascii ''123''),
            rr_xianlu = None, rr_xiaoqu_weizhi = None,
            rr_zaoyin_leixing = None, rr_zhendong_leixing = None\<rparr>,
           \<lparr>gongdan_neirong = CStr example_content, laidian_haoma = CStr (ascii ''456''),
            rr_xianlu = Some [0x31, 0x53F7, 0x7EBF],
            rr_xiaoqu_weizhi = Some [0x671B, 0x4EAC, 0x82B1, 0x56ED],
            rr_zaoyin_leixing = Some [0x5217, 0x8F66, 0x566A, 0x97F3],
            rr_zhendong_leixing = None\<rparr>],
      \<lparr>runtime = 1, trace = [Respond (build_prompt example_content)]\<rparr>) \<and>
   map gongdan_neirong
     [\<lparr>gongdan_neirong = CStr [], laidian_haoma = CStr (ascii ''123''),
            rr_xianlu = None, rr_xiaoqu_weizhi = None,
            rr_zaoyin_leixing = None, rr_zhendong_leixing = None\<rparr>,
           \<lparr>gongdan_neirong = CStr example_content, laidian_haoma = CStr (ascii ''456''),
            rr_xianlu = Some [0x31, 0x53F7, 0x7EBF],
            rr_xiaoqu_weizhi = Some [0x671B, 0x4EAC, 0x82B1, 0x56ED],
            rr_zaoyin_leixing = Some [0x5217, 0x8F66, 0x566A, 0x97F3],
            rr_zhendong_leixing = None\<rparr>] =
     map (\<lambda>r. row_get (col_gongdan_neirong r) (CStr [])) [blank_row, text_row]"
proof -
  have run: "process_rows (stub_env (Returns (ParsedDict example_dict)) []) ready 0 [blank_row, text_row] []
     world0 =
     (Inr [\<lparr>gongdan_neirong = CStr [], laidian_haoma = CStr (ascii ''123''),
            rr_xianlu = None, rr_xiaoqu_weizhi = None,
            rr_zaoyin_leixing = None, rr_zhendong_leixing = None\<rparr>,
           \<lparr>gongdan_neirong = CStr example_content, laidian_haoma = CStr (ascii ''456''),
            rr_xianlu = Some [0x31, 0x53F7, 0x7EBF],
            rr_xiaoqu_weizhi = Some [0x671B, 0x4EAC, 0x82B1, 0x56ED],
            rr_zaoyin_leixing = Some [0x5217, 0x8F66, 0x566A, 0x97F3],
            rr_zhendong_leixing = None\<rparr>],
      \<lparr>runtime = 1, trace = [Respond (build_prompt example_content)]\<rparr>)"
    using strip_example
    by (simp add: ex_defs process_row_def extract_info_from_content_def try_block_def
          all_none_def strip_def ascii_def example_dict_def convert_null_def dict_get_def)
  from content_and_phone_carried [OF run] run show ?thesis by simp
qed

end
